theory Spec2Isabelle
  imports Complex_Main "HOL-Library.Char_ord" "HOL-Library.List_Lexorder" "HOL-Library.Multiset"
begin

section \<open>The knowledge-base updater of avclass (src/avclass/update.py)\<close>

text \<open>
  The module keeps a taxonomy, a translation (tagging) table and an expansion table, reads
  co-occurrence relations between tag tokens and updates the three stores until a pass over
  the remaining relations decides nothing more.

  The embedding makes explicit what the Python leaves implicit:
  \<^item> exceptions are values of \<open>pyerr\<close>, and a function that can raise returns
    \<open>pyerr + 'a\<close> (\<open>Inl\<close> the exception);
  \<^item> the object \<open>self\<close> is the record \<open>update\<close>, passed in and returned;
  \<^item> the builtins \<open>int\<close> and \<open>float\<close>, the module-level name \<open>args\<close> and the choice
    made by \<open>set.pop\<close> and by iteration over a set are fields of the record \<open>env\<close>.
\<close>

subsection \<open>Python values\<close>

datatype pyerr = NameError string | ValueError | KeyError string | TypeError

text \<open>
  A Python float, as far as comparisons see it: a finite double is a rational number,
  and \<open>nan\<close> compares false with everything. How \<open>float(s)\<close> rounds a decimal string is
  left to \<open>py_float\<close> below.
\<close>

datatype pyfloat = Finite rat | PosInf | NegInf | NaN

fun flt_lt :: "pyfloat \<Rightarrow> pyfloat \<Rightarrow> bool" where
  "flt_lt NaN _ = False"
| "flt_lt _ NaN = False"
| "flt_lt (Finite a) (Finite b) = (a < b)"
| "flt_lt _ NegInf = False"
| "flt_lt NegInf _ = True"
| "flt_lt PosInf _ = False"
| "flt_lt _ PosInf = True"

definition flt_ge :: "pyfloat \<Rightarrow> pyfloat \<Rightarrow> bool" where
  "flt_ge a b = (a \<noteq> NaN \<and> b \<noteq> NaN \<and> \<not> flt_lt a b)"

text \<open>
  The values \<open>src_map.get(e, 0)\<close> can return: a string read from the relations file, or the
  integer default. \<open>py_gt\<close> is Python's \<open>>\<close> on them: strings compare lexicographically by
  code point, and a string against an integer raises TypeError.
\<close>

datatype pyval = PStr string | PInt int

fun py_gt :: "pyval \<Rightarrow> pyval \<Rightarrow> pyerr + bool" where
  "py_gt (PStr a) (PStr b) = Inr (b < a)"
| "py_gt (PInt a) (PInt b) = Inr (b < a)"
| "py_gt _ _ = Inl TypeError"

text \<open>\<open>s.split(c)\<close> for a one-character separator: empty fields are kept.\<close>

fun split_on :: "char \<Rightarrow> string \<Rightarrow> string list" where
  "split_on c [] = [[]]"
| "split_on c (x # xs) =
     (if x = c then [] # split_on c xs
      else (case split_on c xs of [] \<Rightarrow> [[x]] | w # ws \<Rightarrow> (x # w) # ws))"

text \<open>\<open>p[0:p.rfind(':')]\<close>: \<open>rfind\<close> gives -1 when there is no colon, and the slice
  \<open>p[0:-1]\<close> then drops the last character.\<close>

fun rfind :: "char \<Rightarrow> string \<Rightarrow> nat option" where
  "rfind c [] = None"
| "rfind c (x # xs) =
     (case rfind c xs of Some i \<Rightarrow> Some (Suc i)
      | None \<Rightarrow> (if x = c then Some 0 else None))"

definition path_prefix :: "string \<Rightarrow> string" where
  "path_prefix p = (case rfind CHR '':'' p of Some i \<Rightarrow> take i p | None \<Rightarrow> butlast p)"

subsection \<open>Relations\<close>

text \<open>The namedtuple \<open>Relation\<close>: all seven fields are the strings read from the file.\<close>

record relation =
  t1 :: string
  t2 :: string
  t1_num :: string
  t2_num :: string
  nalias_num :: string
  talias_num :: string
  tinv_alias_num :: string

subsection \<open>The three stores (avclass.common)\<close>

text \<open>
  Modelled from the spec: the classes \<open>Taxonomy\<close>, \<open>Translation\<close> and \<open>Expansion\<close> of
  \<open>avclass.common\<close> are imported by update.py and are not among the sources. The spec gives
  their interface (section 6) and says that every tag known to the taxonomy has a category
  and a canonical path \<open>CATEGORY:name\<close> or nested, and that a rule maps a source tag to its
  destinations (\<open>get_dst\<close> is empty when there is none, \<open>add_rule\<close> with \<open>overwrite\<close>
  replaces the rule).

  A taxonomy maps a tag name to its path. The name of a path is its last component, the
  category its first one, the components between them are the tag's ancestors. A tag the
  taxonomy does not know has category \<open>UNK\<close>.
\<close>

type_synonym taxonomy = "string \<rightharpoonup> string"

type_synonym rules = "string \<rightharpoonup> string list"

definition tag_name :: "string \<Rightarrow> string" where
  "tag_name path = last (split_on CHR '':'' path)"

definition tag_cat :: "string \<Rightarrow> string" where
  "tag_cat path = (case split_on CHR '':'' path of [] \<Rightarrow> ''UNK'' | [w] \<Rightarrow> ''UNK'' | c # ws \<Rightarrow> c)"

definition tag_ancestors :: "string \<Rightarrow> string list" where
  "tag_ancestors path = (case split_on CHR '':'' path of [] \<Rightarrow> [] | c # ws \<Rightarrow> butlast ws)"

definition get_info :: "taxonomy \<Rightarrow> string \<Rightarrow> string \<times> string" where
  "get_info tx t = (case tx t of None \<Rightarrow> (''UNK:'' @ t, ''UNK'') | Some p \<Rightarrow> (p, tag_cat p))"

definition get_path :: "taxonomy \<Rightarrow> string \<Rightarrow> string" where
  "get_path tx t = fst (get_info tx t)"

definition get_category :: "taxonomy \<Rightarrow> string \<Rightarrow> string" where
  "get_category tx t = snd (get_info tx t)"

definition ancestors :: "taxonomy \<Rightarrow> string \<Rightarrow> string list" where
  "ancestors tx t = (case tx t of None \<Rightarrow> [] | Some p \<Rightarrow> tag_ancestors p)"

definition overlaps :: "taxonomy \<Rightarrow> string \<Rightarrow> string \<Rightarrow> bool" where
  "overlaps tx a b = (a \<in> set (ancestors tx b) \<or> b \<in> set (ancestors tx a))"

definition tax_add_tag :: "taxonomy \<Rightarrow> string \<Rightarrow> taxonomy" where
  "tax_add_tag tx path = tx(tag_name path \<mapsto> path)"

definition tax_remove_tag :: "taxonomy \<Rightarrow> string \<Rightarrow> taxonomy" where
  "tax_remove_tag tx t = tx(t := None)"

text \<open>
  Modelled from the spec: \<open>remove_overlaps\<close> returns the list filtered so that no tag kept
  is an ancestor or a descendant of another one. The spec does not say which of two
  overlapping tags stays; here a tag is kept when it overlaps none of those kept before it.
\<close>

fun remove_overlaps_acc :: "taxonomy \<Rightarrow> string list \<Rightarrow> string list \<Rightarrow> string list" where
  "remove_overlaps_acc tx out_l [] = out_l"
| "remove_overlaps_acc tx out_l (t # ts) =
     (if list_ex (\<lambda>e. overlaps tx t e) out_l then remove_overlaps_acc tx out_l ts
      else remove_overlaps_acc tx (out_l @ [t]) ts)"

definition remove_overlaps :: "taxonomy \<Rightarrow> string list \<Rightarrow> string list" where
  "remove_overlaps tx l = remove_overlaps_acc tx [] l"

definition get_dst :: "rules \<Rightarrow> string \<Rightarrow> string list" where
  "get_dst r src = (case r src of None \<Rightarrow> [] | Some l \<Rightarrow> l)"

definition add_rule :: "rules \<Rightarrow> string \<Rightarrow> string list \<Rightarrow> bool \<Rightarrow> rules" where
  "add_rule r src dst_l overwrite =
     (if overwrite then r(src \<mapsto> dst_l) else r(src \<mapsto> get_dst r src @ dst_l))"

subsection \<open>The updater's state and its environment\<close>

text \<open>
  The fields of \<open>self\<close> that the modelled methods read or write (\<open>self_n\<close> and \<open>self_t\<close>
  are \<open>self._n\<close> and \<open>self._t\<close>), and the messages given to \<open>logger.warning\<close>
  (\<open>logger.debug\<close> calls are not modelled).
  \<open>rel_set\<close> is a Python set: the list holds its elements once each, in no meaningful order.
\<close>

record update =
  out_taxonomy :: taxonomy
  out_translation :: rules
  out_expansion :: rules
  self_n :: int
  self_t :: pyfloat
  blist :: "string set"
  src_map :: "string \<rightharpoonup> string"
  rel_set :: "relation list"
  warnings :: "string list"

text \<open>
  What the methods take from outside \<open>self\<close>:
  \<^item> \<open>py_int\<close>, \<open>py_float\<close>: the builtins \<open>int(s)\<close> and \<open>float(s)\<close>; \<open>None\<close> is ValueError;
  \<^item> \<open>args_t\<close>: the value of the global expression \<open>args.t\<close> that \<open>process_relation\<close>
    evaluates; \<open>None\<close> when the module has no global \<open>args\<close>;
  \<^item> \<open>set_choice\<close>: which element \<open>set.pop()\<close> (and set iteration) takes next, as an index
    into the list of the remaining elements, read modulo its length;
  \<^item> \<open>platform_tags\<close>: the taxonomy's method of that name. Modelled from the spec: it
    returns the set of tags flagged platform; the spec does not say what flags a tag, so
    the method is taken as it comes.
\<close>

record env =
  py_int :: "string \<Rightarrow> int option"
  py_float :: "string \<Rightarrow> pyfloat option"
  args_t :: "pyfloat option"
  set_choice :: "relation list \<Rightarrow> nat"
  platform_tags :: "taxonomy \<Rightarrow> string set"

text \<open>
  update.py binds \<open>args\<close> only as a local variable of \<open>main()\<close> (line 461); no statement
  of the module binds a global of that name. An environment of the module as it is written
  therefore has \<open>args_t = None\<close>.
\<close>

definition module_env :: "env \<Rightarrow> bool" where
  "module_env e = (args_t e = None)"

definition log_warning :: "string \<Rightarrow> update \<Rightarrow> update" where
  "log_warning msg st = st\<lparr>warnings := warnings st @ [msg]\<rparr>"

definition set_add :: "relation \<Rightarrow> relation list \<Rightarrow> relation list" where
  "set_add r rs = (if r \<in> set rs then rs else rs @ [r])"

definition set_pop :: "env \<Rightarrow> relation list \<Rightarrow> relation \<times> relation list" where
  "set_pop e rs = (let i = set_choice e rs mod length rs in (rs ! i, take i rs @ drop (Suc i) rs))"

subsection \<open>Filters\<close>

definition is_weak_rel :: "env \<Rightarrow> update \<Rightarrow> relation \<Rightarrow> pyerr + bool" where
  "is_weak_rel e st rel =
     (case py_int e (nalias_num rel) of
        None \<Rightarrow> Inl ValueError
      | Some k \<Rightarrow>
          if k < self_n st then Inr True
          else (case py_float e (talias_num rel) of
                  None \<Rightarrow> Inl ValueError
                | Some f \<Rightarrow> Inr (flt_lt f (self_t st))))"

definition is_blacklisted_rel :: "update \<Rightarrow> relation \<Rightarrow> bool" where
  "is_blacklisted_rel st rel = (t1 rel \<in> blist st \<or> t2 rel \<in> blist st)"

definition is_known_rel :: "update \<Rightarrow> relation \<Rightarrow> bool" where
  "is_known_rel st rel =
     (if overlaps (out_taxonomy st) (t1 rel) (t2 rel) then True
      else if t2 rel \<in> set (get_dst (out_expansion st) (t1 rel))
              \<or> t1 rel \<in> set (get_dst (out_expansion st) (t2 rel)) then True
      else let t1_dst = sort (get_dst (out_translation st) (t1 rel));
               t2_dst = sort (get_dst (out_translation st) (t2 rel))
           in if t2 rel \<in> set t1_dst \<or> t1 rel \<in> set t2_dst then True
              else if t1_dst \<noteq> [] \<and> t1_dst = t2_dst then True
              else False)"

subsection \<open>Mutations\<close>

definition add_tag :: "update \<Rightarrow> string \<Rightarrow> string \<Rightarrow> update" where
  "add_tag st name path =
     (if get_dst (out_translation st) name = []
      then st\<lparr>out_taxonomy := tax_add_tag (out_taxonomy st) path\<rparr>
      else st)"

definition add_expansion :: "update \<Rightarrow> string \<Rightarrow> string list \<Rightarrow> update" where
  "add_expansion st src dst_l =
     (let new_src = (case get_dst (out_translation st) src of [] \<Rightarrow> src | d # ds \<Rightarrow> d);
          dst = get_dst (out_expansion st) src
      in if dst \<noteq> []
         then let target_l = remove_overlaps (out_taxonomy st) (dst @ dst_l)
              in st\<lparr>out_expansion := add_rule (out_expansion st) new_src target_l True\<rparr>
         else st\<lparr>out_expansion := add_rule (out_expansion st) new_src dst_l True\<rparr>)"

text \<open>
  The loop of \<open>add_alias\<close> over the destinations of \<open>src\<close>: \<open>cnt_max\<close> is never updated,
  so the last destination whose count compares greater than that of \<open>dst\<close> is taken.
\<close>

fun alias_target :: "(string \<rightharpoonup> string) \<Rightarrow> pyval \<Rightarrow> string list \<Rightarrow> string \<Rightarrow> pyerr + string" where
  "alias_target m cnt_max [] target = Inr target"
| "alias_target m cnt_max (x # xs) target =
     (let cnt = (case m x of None \<Rightarrow> PInt 0 | Some c \<Rightarrow> PStr c)
      in case py_gt cnt cnt_max of
           Inl err \<Rightarrow> Inl err
         | Inr b \<Rightarrow> alias_target m cnt_max xs (if b then x else target))"

definition add_alias :: "update \<Rightarrow> string \<Rightarrow> string \<Rightarrow> string \<Rightarrow> pyerr + update" where
  "add_alias st src dst dst_prefix =
     (let tr_dst = get_dst (out_translation st) src;
          chosen = (if tr_dst \<noteq> []
                    then (case src_map st dst of
                            None \<Rightarrow> Inl (KeyError dst)
                          | Some cnt_max \<Rightarrow> alias_target (src_map st) (PStr cnt_max) tr_dst dst)
                    else Inr dst)
      in case chosen of
           Inl err \<Rightarrow> Inl err
         | Inr target \<Rightarrow>
             let tr_dst = get_dst (out_translation st) dst;
                 target_l = (if tr_dst \<noteq> [] then tr_dst else [target]);
                 tx = (if tr_dst \<noteq> [] then out_taxonomy st
                       else tax_add_tag (out_taxonomy st) (dst_prefix @ '':'' @ dst))
             in Inr (st\<lparr>out_taxonomy := tax_remove_tag tx src,
                         out_translation := add_rule (out_translation st) src target_l True\<rparr>))"

definition is_expansion_rel :: "update \<Rightarrow> relation \<Rightarrow> bool" where
  "is_expansion_rel st rel =
     (let c1 = get_category (out_taxonomy st) (t1 rel);
          c2 = get_category (out_taxonomy st) (t2 rel)
      in (c1 = ''FAM'' \<and> c2 \<noteq> c1 \<and> c2 \<noteq> ''UNK'')
         \<or> (c1 = ''CLASS'' \<and> (c2 = ''FILE'' \<or> c2 = ''BEH''))
         \<or> (c1 = ''UNK'' \<and> (c2 = ''BEH'' \<or> c2 = ''CLASS'')))"

subsection \<open>The classifier\<close>

text \<open>\<open>self.add_alias(t1, t2, prefix); return 1\<close>\<close>

definition alias_and_return :: "update \<Rightarrow> string \<Rightarrow> string \<Rightarrow> string \<Rightarrow> pyerr + int \<times> update" where
  "alias_and_return st src dst dst_prefix =
     (case add_alias st src dst dst_prefix of Inl err \<Rightarrow> Inl err | Inr st' \<Rightarrow> Inr (1, st'))"

text \<open>
  \<open>process_relation\<close> returns 1 after an alias or a taxonomy entry, -1 after the warning,
  0 otherwise. Its first test evaluates \<open>float(rel.tinv_alias_num)\<close> and then the global
  \<open>args.t\<close>: the first can raise ValueError, the second NameError.
\<close>

definition process_relation :: "env \<Rightarrow> update \<Rightarrow> relation \<Rightarrow> pyerr + int \<times> update" where
  "process_relation e st rel =
     (let (p1, c1) = get_info (out_taxonomy st) (t1 rel);
          (p2, c2) = get_info (out_taxonomy st) (t2 rel)
      in case py_float e (tinv_alias_num rel) of
           None \<Rightarrow> Inl ValueError
         | Some f \<Rightarrow>
        (case args_t e of
           None \<Rightarrow> Inl (NameError ''args'')
         | Some thr \<Rightarrow>
             if flt_ge f thr then
               (if c1 \<noteq> ''UNK'' \<and> c2 = ''UNK'' then
                  alias_and_return st (t1 rel) (t2 rel) (path_prefix p1)
                else if c1 = ''UNK'' \<and> c2 \<noteq> ''UNK'' then
                  alias_and_return st (t1 rel) (t2 rel) (path_prefix p2)
                else if c1 = ''UNK'' \<and> c2 = ''UNK'' then
                  alias_and_return st (t1 rel) (t2 rel) ''FAM''
                else if c1 = c2 then
                  alias_and_return st (t1 rel) (t2 rel) (path_prefix p1)
                else
                  Inr (-1, log_warning
                        (''Equivalent rule with different categories: '' @ p1 @ [CHR 0x09] @ p2) st))
             else if c1 = ''UNK'' \<and> c2 = ''FAM'' then
               alias_and_return st (t1 rel) (t2 rel) ''FAM''
             else if c1 = ''UNK'' \<and> c2 = ''CLASS'' then
               Inr (0, add_tag st (t1 rel) (''FAM:'' @ t1 rel))
             else if c1 = ''UNK'' \<and> c2 = ''BEH'' then
               Inr (0, add_tag st (t1 rel) (''FAM:'' @ t1 rel))
             else if c1 = ''UNK'' \<and> c2 = ''FILE'' then
               Inr (1, add_tag st (t1 rel) (p2 @ '':'' @ t1 rel))
             else if c1 = ''UNK'' \<and> c2 = ''UNK'' then
               alias_and_return st (t1 rel) (t2 rel) ''FAM''
             else if c1 = ''FAM'' \<and> c2 = ''UNK'' then
               alias_and_return st (t1 rel) (t2 rel) ''FAM''
             else if c1 = ''FILE'' \<and> c2 = ''UNK'' then
               alias_and_return st (t1 rel) (t2 rel) (path_prefix p1)
             else if c1 = ''FAM'' \<and> c2 = ''FAM'' then
               alias_and_return st (t1 rel) (t2 rel) (path_prefix p2)
             else if c2 = ''UNK'' then Inr (0, st)
             else Inr (0, st)))"

subsection \<open>The fixed-point loop\<close>

lemma set_pop_length: "rs \<noteq> [] \<Longrightarrow> length (snd (set_pop e rs)) < length rs"
proof -
  assume "rs \<noteq> []"
  then have "set_choice e rs mod length rs < length rs" by simp
  then show ?thesis by (simp add: set_pop_def Let_def)
qed

text \<open>
  The inner loop of \<open>run\<close>: \<open>rs\<close> is what is left of \<open>self.rel_set\<close>, \<open>cnt\<close> and \<open>new_set\<close>
  are the locals of that name. An exception of \<open>process_relation\<close> leaves the loop.
\<close>

function pass_loop ::
  "env \<Rightarrow> update \<Rightarrow> relation list \<Rightarrow> nat \<Rightarrow> relation list \<Rightarrow> pyerr + update \<times> nat \<times> relation list" where
  "pass_loop e st rs cnt new_set =
     (if rs = [] then Inr (st, cnt, new_set)
      else let rel = fst (set_pop e rs); rs' = snd (set_pop e rs)
           in if is_known_rel st rel then pass_loop e st rs' cnt new_set
              else (case process_relation e st rel of
                      Inl err \<Rightarrow> Inl err
                    | Inr (result, st') \<Rightarrow>
                        if result \<noteq> 0 then pass_loop e st' rs' (cnt + 1) new_set
                        else pass_loop e st' rs' cnt (set_add rel new_set)))"
  by pat_completeness auto
termination
  by (relation "measure (\<lambda>(e, st, rs, cnt, new_set). length rs)") (auto simp: set_pop_length)

lemma set_add_length: "length (set_add r rs) \<le> Suc (length rs)"
  by (simp add: set_add_def)

lemma pass_loop_length:
  "pass_loop e st rs cnt new_set = Inr (st', cnt', new_set') \<Longrightarrow>
   length new_set' + cnt' \<le> length rs + length new_set + cnt"
proof (induction e st rs cnt new_set rule: pass_loop.induct)
  case (1 e st rs cnt new_set)
  show ?case
  proof (cases "rs = []")
    case True
    with "1.prems" show ?thesis by simp
  next
    case False
    define rel where "rel = fst (set_pop e rs)"
    define rs' where "rs' = snd (set_pop e rs)"
    have len: "length rs' < length rs"
      using False by (simp add: rs'_def set_pop_length)
    show ?thesis
    proof (cases "is_known_rel st rel")
      case True
      with False "1.prems" have "pass_loop e st rs' cnt new_set = Inr (st', cnt', new_set')"
        by (simp add: rel_def rs'_def Let_def)
      from "1.IH"(1)[OF False rel_def rs'_def True this] len show ?thesis by simp
    next
      case known: False
      show ?thesis
      proof (cases "process_relation e st rel")
        case (Inl err)
        with False known "1.prems" show ?thesis
          by (simp add: rel_def rs'_def Let_def)
      next
        case (Inr res)
        obtain result st1 where res: "res = (result, st1)" by (cases res)
        show ?thesis
        proof (cases "result \<noteq> 0")
          case True
          with False known Inr res "1.prems"
          have "pass_loop e st1 rs' (cnt + 1) new_set = Inr (st', cnt', new_set')"
            by (simp add: rel_def rs'_def Let_def)
          from "1.IH"(2)[OF False rel_def rs'_def known Inr[unfolded res] refl True this] len
          show ?thesis by simp
        next
          case zero: False
          with False known Inr res "1.prems"
          have "pass_loop e st1 rs' cnt (set_add rel new_set) = Inr (st', cnt', new_set')"
            by (simp add: rel_def rs'_def Let_def)
          from "1.IH"(3)[OF False rel_def rs'_def known Inr[unfolded res] refl zero this] len
            set_add_length[of rel new_set]
          show ?thesis by simp
        qed
      qed
    qed
  qed
qed

text \<open>
  The outer loop of \<open>run\<close>. \<open>num_iter\<close> is the local of that name; \<open>passes\<close> is not in
  the source: it counts the executions of the loop body, the last one included.
\<close>

function run_loop :: "env \<Rightarrow> update \<Rightarrow> nat \<Rightarrow> nat \<Rightarrow> pyerr + update \<times> nat \<times> nat" where
  "run_loop e st num_iter passes =
     (if rel_set st = [] then Inr (st, num_iter, passes)
      else (case pass_loop e st (rel_set st) 0 [] of
              Inl err \<Rightarrow> Inl err
            | Inr (st', cnt, new_set) \<Rightarrow>
                if cnt = 0 then Inr (st'\<lparr>rel_set := new_set\<rparr>, num_iter, passes + 1)
                else run_loop e (st'\<lparr>rel_set := new_set\<rparr>) (num_iter + 1) (passes + 1)))"
  by pat_completeness auto
termination
proof (relation "measure (\<lambda>(e, st, num_iter, passes). length (rel_set st))", goal_cases)
  case 1
  show ?case by simp
next
  case (2 e st num_iter passes res st' rest cnt new_set)
  then have "pass_loop e st (rel_set st) 0 [] = Inr (st', cnt, new_set)" by simp
  from pass_loop_length[OF this] 2 show ?case by simp
qed

text \<open>The order in which a \<open>for\<close> loop visits a set: any order, picked by \<open>set_choice\<close>.\<close>

function set_iter :: "env \<Rightarrow> relation list \<Rightarrow> relation list" where
  "set_iter e rs = (if rs = [] then [] else fst (set_pop e rs) # set_iter e (snd (set_pop e rs)))"
  by pat_completeness auto
termination
  by (relation "measure (\<lambda>(e, rs). length rs)") (auto simp: set_pop_length)

subsection \<open>The expansion finalizer\<close>

fun find_expansions_loop :: "update \<Rightarrow> relation list \<Rightarrow> relation list \<Rightarrow> update \<times> relation list" where
  "find_expansions_loop st [] acc = (st, acc)"
| "find_expansions_loop st (rel # rels) acc =
     (if get_dst (out_translation st) (t1 rel) \<noteq> []
      then find_expansions_loop st rels acc
      else if is_expansion_rel st rel
      then find_expansions_loop (add_expansion st (t1 rel) [t2 rel]) rels (acc @ [rel])
      else find_expansions_loop st rels acc)"

definition find_expansions :: "env \<Rightarrow> update \<Rightarrow> update" where
  "find_expansions e st =
     (case find_expansions_loop st (set_iter e (rel_set st)) [] of
        (st', acc) \<Rightarrow> st'\<lparr>rel_set := fold removeAll acc (rel_set st')\<rparr>)"

definition run :: "env \<Rightarrow> update \<Rightarrow> pyerr + update" where
  "run e st =
     (case run_loop e st 0 0 of
        Inl err \<Rightarrow> Inl err
      | Inr (st', num_iter, passes) \<Rightarrow>
          Inr (find_expansions e st'))"

subsection \<open>The relation loader\<close>

text \<open>
  \<open>str.strip()\<close> removes the whitespace at both ends. A \<open>char\<close> is a code point below
  256, and Python's whitespace among those is 9 to 13, 28 to 32 (the space), 133 and 160.
\<close>

definition py_isspace :: "char \<Rightarrow> bool" where
  "py_isspace c =
     (let k = (of_char c :: nat)
      in (9 \<le> k \<and> k \<le> 13) \<or> (28 \<le> k \<and> k \<le> 32) \<or> k = 133 \<or> k = 160)"

definition strip :: "string \<Rightarrow> string" where
  "strip s = rev (dropWhile py_isspace (rev (dropWhile py_isspace s)))"

definition startswith_hash :: "string \<Rightarrow> bool" where
  "startswith_hash line = (case line of [] \<Rightarrow> False | c # cs \<Rightarrow> c = CHR ''#'')"

text \<open>
  The seven-name unpacking of \<open>line.strip().split('\t')\<close>, ValueError when the fields are
  not seven.
\<close>

definition parse_line :: "string \<Rightarrow> pyerr + relation" where
  "parse_line line =
     (case split_on (CHR 0x09) (strip line) of
        [a, b, c, d, x, y, z] \<Rightarrow>
          Inr \<lparr>t1 = a, t2 = b, t1_num = c, t2_num = d, nalias_num = x, talias_num = y,
               tinv_alias_num = z\<rparr>
      | _ \<Rightarrow> Inl ValueError)"

text \<open>
  The loop of \<open>read_relations\<close> over the lines of the file: \<open>rs\<close> is the local \<open>rel_set\<close>,
  the state carries \<open>self.src_map\<close>.
\<close>

fun read_lines :: "env \<Rightarrow> update \<Rightarrow> relation list \<Rightarrow> string list \<Rightarrow> pyerr + relation list \<times> update" where
  "read_lines e st rs [] = Inr (rs, st)"
| "read_lines e st rs (line # lines) =
     (if startswith_hash line then read_lines e st rs lines
      else (case parse_line line of
              Inl err \<Rightarrow> Inl err
            | Inr rel \<Rightarrow>
               (case is_weak_rel e st rel of
                  Inl err \<Rightarrow> Inl err
                | Inr weak \<Rightarrow>
                    if weak then read_lines e st rs lines
                    else if is_blacklisted_rel st rel then read_lines e st rs lines
                    else read_lines e
                           (st\<lparr>src_map := (src_map st)(t1 rel \<mapsto> t1_num rel, t2 rel \<mapsto> t2_num rel)\<rparr>)
                           (set_add rel rs) lines)))"

definition read_relations :: "env \<Rightarrow> update \<Rightarrow> string list \<Rightarrow> pyerr + relation list \<times> update" where
  "read_relations e st file_lines = read_lines e st [] file_lines"

text \<open>\<open>Update.__init__\<close>, the file given as the list of its lines.\<close>

definition init ::
  "env \<Rightarrow> string list \<Rightarrow> taxonomy \<Rightarrow> rules \<Rightarrow> rules \<Rightarrow> int \<Rightarrow> pyfloat \<Rightarrow> pyerr + update" where
  "init e file_lines in_taxonomy in_translation in_expansion n t =
     (let st = \<lparr>out_taxonomy = in_taxonomy, out_translation = in_translation,
                out_expansion = in_expansion, self_n = n, self_t = t,
                blist = platform_tags e in_taxonomy, src_map = Map.empty, rel_set = [],
                warnings = []\<rparr>
      in case read_relations e st file_lines of
           Inl err \<Rightarrow> Inl err
         | Inr (rs, st') \<Rightarrow> Inr (st'\<lparr>rel_set := rs\<rparr>))"

section \<open>Examples\<close>

text \<open>
  An environment and a knowledge base for the concrete runs below. \<open>ex_int\<close> and
  \<open>ex_float\<close> give the values of \<open>int\<close> and \<open>float\<close> on the strings the examples use;
  the thresholds are the defaults of the command line, \<open>n = 20\<close> and \<open>t = 0.94\<close>.
\<close>

definition ex_int :: "string \<Rightarrow> int option" where
  "ex_int = [''5'' \<mapsto> 5, ''7'' \<mapsto> 7, ''10'' \<mapsto> 10, ''15'' \<mapsto> 15, ''25'' \<mapsto> 25, ''30'' \<mapsto> 30,
             ''480'' \<mapsto> 480, ''500'' \<mapsto> 500]"

definition ex_float :: "string \<Rightarrow> pyfloat option" where
  "ex_float = [''0.50'' \<mapsto> Finite (1 / 2), ''0.80'' \<mapsto> Finite (4 / 5),
               ''0.96'' \<mapsto> Finite (24 / 25), ''0.99'' \<mapsto> Finite (99 / 100)]"

definition ex_env :: "pyfloat option \<Rightarrow> env" where
  "ex_env a = \<lparr>py_int = ex_int, py_float = ex_float, args_t = a, set_choice = (\<lambda>rs. 0),
              platform_tags = (\<lambda>tx. {})\<rparr>"

definition ex_kb :: "taxonomy \<Rightarrow> rules \<Rightarrow> rules \<Rightarrow> update" where
  "ex_kb tx tr ex = \<lparr>out_taxonomy = tx, out_translation = tr, out_expansion = ex, self_n = 20,
                     self_t = Finite (47 / 50), blist = {}, src_map = Map.empty, rel_set = [],
                     warnings = []\<rparr>"

definition ex_rel :: "string \<Rightarrow> string \<Rightarrow> string \<Rightarrow> string \<Rightarrow> relation" where
  "ex_rel a b r1 r2 = \<lparr>t1 = a, t2 = b, t1_num = ''500'', t2_num = ''500'', nalias_num = ''480'',
                       talias_num = r1, tinv_alias_num = r2\<rparr>"

section \<open>The relation loader\<close>

text \<open>
  For the statements about \<open>read_relations\<close>: the relations of a file that the loader does
  not drop, in file order (\<open>kept_relations\<close>), the update of \<open>src_map\<close> that one of them
  causes (\<open>note_counts\<close>), and the count a relation gives for a token (\<open>count_in\<close>: the
  assignment for \<open>t2\<close> comes second and wins when both tokens are the same).
\<close>

definition kept_of_line :: "env \<Rightarrow> update \<Rightarrow> string \<Rightarrow> relation list" where
  "kept_of_line e st line =
     (if startswith_hash line then []
      else (case parse_line line of
              Inl err \<Rightarrow> []
            | Inr rel \<Rightarrow> if is_weak_rel e st rel = Inr False \<and> \<not> is_blacklisted_rel st rel
                         then [rel] else []))"

definition kept_relations :: "env \<Rightarrow> update \<Rightarrow> string list \<Rightarrow> relation list" where
  "kept_relations e st file_lines = concat (map (kept_of_line e st) file_lines)"

definition note_counts :: "relation \<Rightarrow> (string \<rightharpoonup> string) \<Rightarrow> (string \<rightharpoonup> string)" where
  "note_counts rel m = m(t1 rel \<mapsto> t1_num rel, t2 rel \<mapsto> t2_num rel)"

definition count_in :: "relation \<Rightarrow> string \<Rightarrow> string option" where
  "count_in rel k = (if k = t2 rel then Some (t2_num rel) else if k = t1 rel then Some (t1_num rel) else None)"

text \<open>A line of the relations file, from its fields.\<close>

fun join_tab :: "string list \<Rightarrow> string" where
  "join_tab [] = []"
| "join_tab [f] = f"
| "join_tab (f # fs) = f @ CHR 0x09 # join_tab fs"

definition ex_line :: "string list \<Rightarrow> string" where
  "ex_line fs = join_tab fs @ [CHR 0x0A]"

definition mentions :: "string \<Rightarrow> relation \<Rightarrow> bool" where
  "mentions k rel = (k = t1 rel \<or> k = t2 rel)"


lemma is_weak_rel_src_map [simp]: "is_weak_rel e (st\<lparr>src_map := m\<rparr>) rel = is_weak_rel e st rel"
  by (simp add: is_weak_rel_def split: option.splits)

lemma is_blacklisted_rel_src_map [simp]:
  "is_blacklisted_rel (st\<lparr>src_map := m\<rparr>) rel = is_blacklisted_rel st rel"
  by (simp add: is_blacklisted_rel_def)

lemma kept_of_line_src_map [simp]:
  "kept_of_line e (st\<lparr>src_map := m\<rparr>) line = kept_of_line e st line"
  by (simp add: kept_of_line_def split: sum.splits)

lemma kept_relations_src_map [simp]:
  "kept_relations e (st\<lparr>src_map := m\<rparr>) ls = kept_relations e st ls"
  by (simp add: kept_relations_def cong: map_cong)

lemma kept_relations_Cons:
  "kept_relations e st (line # ls) = kept_of_line e st line @ kept_relations e st ls"
  by (simp add: kept_relations_def)

lemma kept_relations_Nil [simp]: "kept_relations e st [] = []"
  by (simp add: kept_relations_def)

lemma set_set_add [simp]: "set (set_add r rs) = insert r (set rs)"
  by (auto simp: set_add_def)

lemma read_lines_kept:
  "read_lines e st rs ls = Inr (rs', st') \<Longrightarrow>
   set rs' = set rs \<union> set (kept_relations e st ls)
   \<and> st' = st\<lparr>src_map := fold note_counts (kept_relations e st ls) (src_map st)\<rparr>"
proof (induction ls arbitrary: st rs)
  case Nil
  then show ?case by simp
next
  case (Cons line ls)
  show ?case
  proof (cases "startswith_hash line")
    case True
    with Cons.prems have "read_lines e st rs ls = Inr (rs', st')" by simp
    from Cons.IH[OF this] True show ?thesis by (simp add: kept_relations_Cons kept_of_line_def)
  next
    case nohash: False
    show ?thesis
    proof (cases "parse_line line")
      case (Inl err)
      with nohash Cons.prems show ?thesis by simp
    next
      case (Inr rel)
      show ?thesis
      proof (cases "is_weak_rel e st rel")
        case (Inl err)
        with nohash Inr Cons.prems show ?thesis by simp
      next
        case weak: (Inr w)
        show ?thesis
        proof (cases "w \<or> is_blacklisted_rel st rel")
          case True
          with nohash Inr weak Cons.prems have "read_lines e st rs ls = Inr (rs', st')"
            by (auto split: if_splits)
          from Cons.IH[OF this] True nohash Inr weak show ?thesis
            by (auto simp: kept_relations_Cons kept_of_line_def)
        next
          case False
          with nohash Inr weak Cons.prems
          have "read_lines e (st\<lparr>src_map := (src_map st)(t1 rel \<mapsto> t1_num rel, t2 rel \<mapsto> t2_num rel)\<rparr>)
                  (set_add rel rs) ls = Inr (rs', st')"
            by simp
          from Cons.IH[OF this] False nohash Inr weak show ?thesis
            by (auto simp: kept_relations_Cons kept_of_line_def note_counts_def)
        qed
      qed
    qed
  qed
qed

lemma kept_relations_mem:
  "rel \<in> set (kept_relations e st ls) \<longleftrightarrow>
     (\<exists>line \<in> set ls. \<not> startswith_hash line \<and> parse_line line = Inr rel)
     \<and> is_weak_rel e st rel = Inr False \<and> \<not> is_blacklisted_rel st rel"
proof (induction ls)
  case Nil
  then show ?case by simp
next
  case (Cons line ls)
  show ?case
    by (cases "parse_line line")
       (auto simp: kept_relations_Cons kept_of_line_def Cons.IH)
qed

lemma is_weak_rel_False_iff:
  "is_weak_rel e st rel = Inr False \<longleftrightarrow>
     (\<exists>k. py_int e (nalias_num rel) = Some k \<and> \<not> k < self_n st)
     \<and> (\<exists>f. py_float e (talias_num rel) = Some f \<and> \<not> flt_lt f (self_t st))"
  by (auto simp: is_weak_rel_def split: option.splits)

lemma fold_note_counts:
  "fold note_counts rels m k =
     (if filter (\<lambda>rel. k = t1 rel \<or> k = t2 rel) rels = [] then m k
      else count_in (last (filter (\<lambda>rel. k = t1 rel \<or> k = t2 rel) rels)) k)"
proof (induction rels rule: rev_induct)
  case Nil
  then show ?case by simp
next
  case (snoc x xs)
  show ?case
  proof (cases "k = t1 x \<or> k = t2 x")
    case True
    then show ?thesis
      by (auto simp: note_counts_def count_in_def)
  next
    case False
    with snoc show ?thesis
      by (simp add: note_counts_def)
  qed
qed

lemma kept_of_line_rel_set [simp]:
  "kept_of_line e (st\<lparr>rel_set := rs\<rparr>) line = kept_of_line e st line"
  by (simp add: kept_of_line_def is_weak_rel_def is_blacklisted_rel_def split: sum.splits option.splits)

lemma kept_relations_rel_set [simp]:
  "kept_relations e (st\<lparr>rel_set := rs\<rparr>) ls = kept_relations e st ls"
  by (simp add: kept_relations_def cong: map_cong)

lemma init_kept:
  assumes "init e file_lines tx tr ex n t = Inr st"
  shows "set (rel_set st) = set (kept_relations e st file_lines)"
    and "src_map st = fold note_counts (kept_relations e st file_lines) Map.empty"
    and "self_n st = n" and "self_t st = t" and "blist st = platform_tags e tx"
    and "out_taxonomy st = tx" and "out_translation st = tr" and "out_expansion st = ex"
proof -
  define st0 where "st0 = \<lparr>out_taxonomy = tx, out_translation = tr, out_expansion = ex,
    self_n = n, self_t = t, blist = platform_tags e tx, src_map = Map.empty, rel_set = [],
    warnings = []\<rparr>"
  from assms obtain rs st1 where r: "read_lines e st0 [] file_lines = Inr (rs, st1)"
    and st: "st = st1\<lparr>rel_set := rs\<rparr>"
    by (auto simp: init_def read_relations_def st0_def Let_def split: sum.splits)
  from read_lines_kept[OF r]
  have a: "set rs = set (kept_relations e st0 file_lines)"
    and b: "st1 = st0\<lparr>src_map := fold note_counts (kept_relations e st0 file_lines) (src_map st0)\<rparr>"
    by simp_all
  have k: "kept_relations e st file_lines = kept_relations e st0 file_lines"
    by (subst st, subst b) simp
  show "set (rel_set st) = set (kept_relations e st file_lines)"
    using a k st by simp
  show "src_map st = fold note_counts (kept_relations e st file_lines) Map.empty"
    unfolding k by (subst st, subst b) (simp add: st0_def)
  show "self_n st = n" "self_t st = t" "blist st = platform_tags e tx"
    "out_taxonomy st = tx" "out_translation st = tr" "out_expansion st = ex"
    by (subst st, subst b, simp add: st0_def)+
qed


definition ex_file :: "string list" where
  "ex_file =
     [''# t1 t2 ...'',
      ex_line [''zbot'', ''zeus'', ''500'', ''500'', ''480'', ''0.96'', ''0.96''],
      ex_line [''zbot'', ''citadel'', ''500'', ''500'', ''15'', ''0.96'', ''0.96''],
      ex_line [''zbot'', ''spyeye'', ''500'', ''500'', ''25'', ''0.80'', ''0.96''],
      ex_line [''zbot'', ''windows'', ''500'', ''500'', ''480'', ''0.96'', ''0.96'']]"

lemma ex_file_init:
  "init ((ex_env None)\<lparr>platform_tags := (\<lambda>tx. {''windows''})\<rparr>) ex_file Map.empty Map.empty Map.empty
      20 (Finite (47 / 50))
   = Inr ((ex_kb Map.empty Map.empty Map.empty)
            \<lparr>blist := {''windows''}, src_map := [''zbot'' \<mapsto> ''500'', ''zeus'' \<mapsto> ''500''],
             rel_set := [ex_rel ''zbot'' ''zeus'' ''0.96'' ''0.96'']\<rparr>)"
  by (simp add: init_def read_relations_def ex_file_def ex_env_def ex_kb_def ex_rel_def
      startswith_hash_def parse_line_def ex_line_def strip_def py_isspace_def
      is_weak_rel_def is_blacklisted_rel_def ex_int_def ex_float_def set_add_def)

definition ex_file2 :: "string list" where
  "ex_file2 =
     [ex_line [''zbot'', ''zeus'', ''10'', ''5'', ''30'', ''0.99'', ''0.99''],
      ex_line [''zbot'', ''citadel'', ''7'', ''5'', ''30'', ''0.99'', ''0.99'']]"

lemma ex_file2_init:
  "init (ex_env None) ex_file2 Map.empty Map.empty Map.empty 20 (Finite (47 / 50))
   = Inr ((ex_kb Map.empty Map.empty Map.empty)
            \<lparr>src_map := [''zbot'' \<mapsto> ''10'', ''zeus'' \<mapsto> ''5'', ''zbot'' \<mapsto> ''7'', ''citadel'' \<mapsto> ''5''],
             rel_set := [\<lparr>t1 = ''zbot'', t2 = ''zeus'', t1_num = ''10'', t2_num = ''5'', nalias_num = ''30'',
                          talias_num = ''0.99'', tinv_alias_num = ''0.99''\<rparr>,
                         \<lparr>t1 = ''zbot'', t2 = ''citadel'', t1_num = ''7'', t2_num = ''5'', nalias_num = ''30'',
                          talias_num = ''0.99'', tinv_alias_num = ''0.99''\<rparr>]\<rparr>)"
  by (simp add: init_def read_relations_def ex_file2_def ex_env_def ex_kb_def ex_rel_def
      startswith_hash_def parse_line_def ex_line_def strip_def py_isspace_def
      is_weak_rel_def is_blacklisted_rel_def ex_int_def ex_float_def set_add_def)

text \<open>
  C7. The working set that \<open>read_relations\<close> produces for the thresholds \<open>n\<close> and \<open>t\<close>
  holds exactly the relations parsed from a line that is not a comment whose joint count is
  not below \<open>n\<close>, whose first ratio is not below \<open>t\<close> and whose two tags are not among
  the platform tags of the taxonomy. (When the loader returns at all: a line that does not
  parse aborts it.)
\<close>

theorem read_relations_filter:
  "init e file_lines tx tr ex n t = Inr st \<Longrightarrow>
   (rel \<in> set (rel_set st) \<longleftrightarrow>
      (\<exists>line \<in> set file_lines. \<not> startswith_hash line \<and> parse_line line = Inr rel)
      \<and> (\<exists>k. py_int e (nalias_num rel) = Some k \<and> \<not> k < n)
      \<and> (\<exists>f. py_float e (talias_num rel) = Some f \<and> \<not> flt_lt f t)
      \<and> t1 rel \<notin> platform_tags e tx \<and> t2 rel \<notin> platform_tags e tx)"
proof -
  assume a: "init e file_lines tx tr ex n t = Inr st"
  note k = init_kept[OF a]
  show ?thesis
    unfolding k(1) kept_relations_mem is_weak_rel_False_iff is_blacklisted_rel_def k(3,4,5)
    by blast
qed


text \<open>
  The thresholds of the spec, \<open>n = 20\<close> and \<open>t = 0.94\<close>, on a file with a comment, a strong
  relation, one with joint count 15, one with joint count 25 and ratio 0.80, and one with the
  platform tag \<open>windows\<close>: only the strong one is kept.
\<close>

theorem read_relations_filter_witness:
  "init ((ex_env None)\<lparr>platform_tags := (\<lambda>tx. {''windows''})\<rparr>) ex_file Map.empty Map.empty Map.empty
      20 (Finite (47 / 50))
   = Inr ((ex_kb Map.empty Map.empty Map.empty)
            \<lparr>blist := {''windows''}, src_map := [''zbot'' \<mapsto> ''500'', ''zeus'' \<mapsto> ''500''],
             rel_set := [ex_rel ''zbot'' ''zeus'' ''0.96'' ''0.96'']\<rparr>)
   \<and> ex_rel ''zbot'' ''zeus'' ''0.96'' ''0.96''
       \<in> set (rel_set ((ex_kb Map.empty Map.empty Map.empty)
            \<lparr>blist := {''windows''}, src_map := [''zbot'' \<mapsto> ''500'', ''zeus'' \<mapsto> ''500''],
             rel_set := [ex_rel ''zbot'' ''zeus'' ''0.96'' ''0.96'']\<rparr>))
   \<and> ex_int (nalias_num (ex_rel ''zbot'' ''zeus'' ''0.96'' ''0.96'')) = Some 480
   \<and> ex_float (talias_num (ex_rel ''zbot'' ''zeus'' ''0.96'' ''0.96'')) = Some (Finite (24 / 25))"
  using read_relations_filter [OF ex_file_init, of "ex_rel ''zbot'' ''zeus'' ''0.96'' ''0.96''"]
    ex_file_init
  by (simp add: ex_rel_def ex_int_def ex_float_def)

text \<open>
  C10, as the source has it. After \<open>read_relations\<close> the working set holds the relations
  that were not dropped, and \<open>src_map\<close> has an entry exactly for the tokens of those
  relations: the count, as the string read, that the last such relation of the file gives
  for the token. The assignments \<open>self.src_map[rel.t1] = rel.t1_num\<close> and
  \<open>self.src_map[rel.t2] = rel.t2_num\<close> overwrite; nothing takes a maximum.
\<close>

theorem src_map_last_count:
  "init e file_lines tx tr ex n t = Inr st \<Longrightarrow>
   set (rel_set st) = set (kept_relations e st file_lines)
   \<and> src_map st k =
       (if filter (mentions k) (kept_relations e st file_lines) = [] then None
        else count_in (last (filter (mentions k) (kept_relations e st file_lines))) k)"
proof -
  assume a: "init e file_lines tx tr ex n t = Inr st"
  note i = init_kept[OF a]
  have m: "mentions k = (\<lambda>rel. k = t1 rel \<or> k = t2 rel)"
    by (simp add: mentions_def fun_eq_iff)
  show ?thesis
    unfolding m i(2) fold_note_counts using i(1) by simp
qed


theorem src_map_last_count_witness:
  "init (ex_env None) ex_file2 Map.empty Map.empty Map.empty 20 (Finite (47 / 50))
   = Inr ((ex_kb Map.empty Map.empty Map.empty)
            \<lparr>src_map := [''zbot'' \<mapsto> ''10'', ''zeus'' \<mapsto> ''5'', ''zbot'' \<mapsto> ''7'', ''citadel'' \<mapsto> ''5''],
             rel_set := [\<lparr>t1 = ''zbot'', t2 = ''zeus'', t1_num = ''10'', t2_num = ''5'', nalias_num = ''30'',
                          talias_num = ''0.99'', tinv_alias_num = ''0.99''\<rparr>,
                         \<lparr>t1 = ''zbot'', t2 = ''citadel'', t1_num = ''7'', t2_num = ''5'', nalias_num = ''30'',
                          talias_num = ''0.99'', tinv_alias_num = ''0.99''\<rparr>]\<rparr>)
   \<and> count_in \<lparr>t1 = ''zbot'', t2 = ''citadel'', t1_num = ''7'', t2_num = ''5'', nalias_num = ''30'',
                  talias_num = ''0.99'', tinv_alias_num = ''0.99''\<rparr> ''zeus'' = None
   \<and> count_in \<lparr>t1 = ''zbot'', t2 = ''zeus'', t1_num = ''10'', t2_num = ''5'', nalias_num = ''30'',
                  talias_num = ''0.99'', tinv_alias_num = ''0.99''\<rparr> ''zeus'' = Some ''5''"
  using src_map_last_count [OF ex_file2_init, of "''zeus''"] ex_file2_init
  by (simp add: count_in_def)

text \<open>
  The claim of the spec fails on a file in which a token comes with two counts: \<open>zbot\<close> is
  seen with the counts 10 and 7 in two relations that are both kept, and \<open>src_map\<close> ends
  with 7 for it, the later one and not the greater.
\<close>

theorem src_map_not_maximum:
  "init (ex_env None)
     [ex_line [''zbot'', ''zeus'', ''10'', ''5'', ''30'', ''0.99'', ''0.99''],
      ex_line [''zbot'', ''citadel'', ''7'', ''5'', ''30'', ''0.99'', ''0.99'']]
     Map.empty Map.empty Map.empty 20 (Finite (47 / 50))
   = Inr ((ex_kb Map.empty Map.empty Map.empty)
            \<lparr>src_map := [''zbot'' \<mapsto> ''10'', ''zeus'' \<mapsto> ''5'', ''zbot'' \<mapsto> ''7'', ''citadel'' \<mapsto> ''5''],
             rel_set := [\<lparr>t1 = ''zbot'', t2 = ''zeus'', t1_num = ''10'', t2_num = ''5'', nalias_num = ''30'',
                          talias_num = ''0.99'', tinv_alias_num = ''0.99''\<rparr>,
                         \<lparr>t1 = ''zbot'', t2 = ''citadel'', t1_num = ''7'', t2_num = ''5'', nalias_num = ''30'',
                          talias_num = ''0.99'', tinv_alias_num = ''0.99''\<rparr>]\<rparr>)
   \<and> src_map ((ex_kb Map.empty Map.empty Map.empty)
            \<lparr>src_map := [''zbot'' \<mapsto> ''10'', ''zeus'' \<mapsto> ''5'', ''zbot'' \<mapsto> ''7'', ''citadel'' \<mapsto> ''5'']\<rparr>)
         ''zbot'' = Some ''7''
   \<and> ex_int ''7'' = Some 7 \<and> ex_int ''10'' = Some 10"
  by (simp add: init_def read_relations_def ex_env_def ex_kb_def
      startswith_hash_def parse_line_def ex_line_def strip_def py_isspace_def
      is_weak_rel_def is_blacklisted_rel_def ex_int_def ex_float_def set_add_def)

section \<open>The classifier\<close>

text \<open>
  In an environment of the module as it is written no call of \<open>process_relation\<close> returns:
  the first test raises, ValueError when the ratio is no float and NameError otherwise.
\<close>

lemma process_relation_module_env:
  "module_env e \<Longrightarrow> process_relation e st rel = Inl ValueError \<or> process_relation e st rel = Inl (NameError ''args'')"
  by (simp add: module_env_def process_relation_def split: prod.splits option.splits)

text \<open>
  C1. The claim is that no exception escapes \<open>process_relation\<close> and \<open>run\<close> on a
  well-formed knowledge base. The code raises: with the relation of the spec's own example
  (\<open>upatre\<close>, a family, and \<open>UNK_A\<close>, both ratios 0.96) the call ends in NameError, and so
  does \<open>run\<close> on the working set that holds this relation. With a threshold bound to
  \<open>args.t\<close> there is a second way out: \<open>zbot\<close> already translates to \<open>zeusbot\<close>, a tag that is
  in no relation of the file; \<open>add_alias\<close> then compares the default count \<open>0\<close> with the
  string \<open>'500'\<close> and raises TypeError.
\<close>

theorem process_relation_raises:
  "module_env (ex_env None)
   \<and> process_relation (ex_env None) (ex_kb [''upatre'' \<mapsto> ''FAM:upatre''] Map.empty Map.empty)
        (ex_rel ''upatre'' ''UNK_A'' ''0.96'' ''0.96'') = Inl (NameError ''args'')
   \<and> run (ex_env None)
        ((ex_kb [''upatre'' \<mapsto> ''FAM:upatre''] Map.empty Map.empty)
           \<lparr>src_map := [''upatre'' \<mapsto> ''500'', ''UNK_A'' \<mapsto> ''500''],
            rel_set := [ex_rel ''upatre'' ''UNK_A'' ''0.96'' ''0.96'']\<rparr>)
      = Inl (NameError ''args'')
   \<and> process_relation (ex_env (Some (Finite (47 / 50))))
        ((ex_kb Map.empty [''zbot'' \<mapsto> [''zeusbot'']] Map.empty)
           \<lparr>src_map := [''zbot'' \<mapsto> ''500'', ''zeus'' \<mapsto> ''500'']\<rparr>)
        (ex_rel ''zbot'' ''zeus'' ''0.96'' ''0.50'') = Inl TypeError"
  by (simp add: module_env_def ex_env_def ex_kb_def ex_rel_def process_relation_def get_info_def
      tag_cat_def ex_float_def run_def is_known_rel_def overlaps_def ancestors_def tag_ancestors_def
      get_dst_def set_pop_def flt_ge_def alias_and_return_def add_alias_def)

text \<open>
  C8. A relation strong in both directions between a family and a class: the code is meant
  to log a warning and return -1, and raises NameError before it gets there.
\<close>

theorem contradiction_raises:
  "module_env (ex_env None)
   \<and> process_relation (ex_env None)
        (ex_kb [''zbot'' \<mapsto> ''FAM:zbot'', ''downloader'' \<mapsto> ''CLASS:downloader''] Map.empty Map.empty)
        (ex_rel ''zbot'' ''downloader'' ''0.96'' ''0.96'') = Inl (NameError ''args'')"
  by (simp add: module_env_def ex_env_def ex_kb_def ex_rel_def process_relation_def get_info_def
      tag_cat_def ex_float_def)

text \<open>
  With a threshold bound to \<open>args.t\<close> the branch does what C8 says: the warning is logged,
  the three stores are as before, the result is -1, and the pass of \<open>run\<close> counts it and
  goes on without the relation.
\<close>

lemma process_relation_contradiction:
  assumes "args_t e = Some thr" and "py_float e (tinv_alias_num rel) = Some f" and "flt_ge f thr"
    and "get_info (out_taxonomy st) (t1 rel) = (p1, c1)"
    and "get_info (out_taxonomy st) (t2 rel) = (p2, c2)"
    and "c1 \<noteq> ''UNK''" and "c2 \<noteq> ''UNK''" and "c1 \<noteq> c2"
  shows "process_relation e st rel =
           Inr (-1, log_warning (''Equivalent rule with different categories: '' @ p1 @ [CHR 0x09] @ p2) st)"
  using assms by (simp add: process_relation_def)

lemma contradiction_dropped:
  assumes "rs \<noteq> []" and "\<not> is_known_rel st (fst (set_pop e rs))"
    and "process_relation e st (fst (set_pop e rs)) = Inr (-1, st')"
  shows "pass_loop e st rs cnt new_set = pass_loop e st' (snd (set_pop e rs)) (cnt + 1) new_set"
  using assms by (subst pass_loop.simps) (simp add: Let_def)

text \<open>
  The relation (\<open>upatre\<close>, \<open>UNK_A\<close>) with \<open>upatre\<close> in the taxonomy as \<open>FAM:upatre\<close>,
  \<open>UNK_A\<close> of category UNK and neither of them a translation source, in any environment:
  \<open>process_relation\<close> either raises at its threshold test or is the call
  \<open>add_alias('upatre', 'UNK_A', 'FAM')\<close> followed by \<open>return 1\<close>. Both the branch for two
  strong ratios and the branch FAM, UNK pass the first tag as the alias, the second as the
  canonical tag and \<open>FAM\<close> as the prefix. That call makes \<open>upatre\<close> a translation source
  with the one destination \<open>UNK_A\<close>, takes \<open>upatre\<close> out of the taxonomy, enters \<open>UNK_A\<close>
  as \<open>FAM:UNK_A\<close>, and leaves \<open>UNK_A\<close> without destinations and the expansions as they
  were.
\<close>

lemma add_alias_fresh:
  assumes "get_dst (out_translation st) src = []" and "get_dst (out_translation st) dst = []"
  shows "add_alias st src dst pfx =
           Inr (st\<lparr>out_taxonomy := tax_remove_tag (tax_add_tag (out_taxonomy st) (pfx @ '':'' @ dst)) src,
                   out_translation := add_rule (out_translation st) src [dst] True\<rparr>)"
  using assms by (simp add: add_alias_def)

lemma process_relation_upatre:
  "t1 rel = ''upatre'' \<and> t2 rel = ''UNK_A'' \<and> out_taxonomy st ''upatre'' = Some ''FAM:upatre''
   \<and> get_category (out_taxonomy st) ''UNK_A'' = ''UNK''
   \<and> get_dst (out_translation st) ''upatre'' = [] \<and> get_dst (out_translation st) ''UNK_A'' = []
   \<Longrightarrow>
   (process_relation e st rel = Inl ValueError
    \<or> process_relation e st rel = Inl (NameError ''args'')
    \<or> process_relation e st rel = alias_and_return st ''upatre'' ''UNK_A'' ''FAM'')
   \<and> (\<exists>st'. add_alias st ''upatre'' ''UNK_A'' ''FAM'' = Inr st'
          \<and> alias_and_return st ''upatre'' ''UNK_A'' ''FAM'' = Inr (1, st')
          \<and> get_dst (out_translation st') ''upatre'' = [''UNK_A'']
          \<and> get_dst (out_translation st') ''UNK_A'' = []
          \<and> out_taxonomy st' ''upatre'' = None
          \<and> out_taxonomy st' ''UNK_A'' = Some ''FAM:UNK_A''
          \<and> out_expansion st' = out_expansion st)"
proof -
  assume a: "t1 rel = ''upatre'' \<and> t2 rel = ''UNK_A'' \<and> out_taxonomy st ''upatre'' = Some ''FAM:upatre''
   \<and> get_category (out_taxonomy st) ''UNK_A'' = ''UNK''
   \<and> get_dst (out_translation st) ''upatre'' = [] \<and> get_dst (out_translation st) ''UNK_A'' = []"
  have i1: "get_info (out_taxonomy st) ''upatre'' = (''FAM:upatre'', ''FAM'')"
    using a by (simp add: get_info_def tag_cat_def)
  obtain p2 where i2: "get_info (out_taxonomy st) ''UNK_A'' = (p2, ''UNK'')"
    using a by (cases "get_info (out_taxonomy st) ''UNK_A''") (simp add: get_category_def)
  have pp: "path_prefix ''FAM:upatre'' = ''FAM''"
    by (simp add: path_prefix_def)
  have tn: "tag_name ''FAM:UNK_A'' = ''UNK_A''"
    by (simp add: tag_name_def)
  have first: "process_relation e st rel = Inl ValueError
    \<or> process_relation e st rel = Inl (NameError ''args'')
    \<or> process_relation e st rel = alias_and_return st ''upatre'' ''UNK_A'' ''FAM''"
    using a i1 i2 pp by (simp add: process_relation_def split: option.splits)
  have al: "add_alias st ''upatre'' ''UNK_A'' ''FAM'' =
          Inr (st\<lparr>out_taxonomy := tax_remove_tag (tax_add_tag (out_taxonomy st) ''FAM:UNK_A'') ''upatre'',
                  out_translation := add_rule (out_translation st) ''upatre'' [''UNK_A''] True\<rparr>)"
    using add_alias_fresh[of st "''upatre''" "''UNK_A''" "''FAM''"] a by simp
  have nd: "get_dst (add_rule (out_translation st) ''upatre'' [''UNK_A''] True) ''UNK_A'' = []"
    using a by (simp add: add_rule_def get_dst_def)
  have second: "\<exists>st'. add_alias st ''upatre'' ''UNK_A'' ''FAM'' = Inr st'
          \<and> alias_and_return st ''upatre'' ''UNK_A'' ''FAM'' = Inr (1, st')
          \<and> get_dst (out_translation st') ''upatre'' = [''UNK_A'']
          \<and> get_dst (out_translation st') ''UNK_A'' = []
          \<and> out_taxonomy st' ''upatre'' = None
          \<and> out_taxonomy st' ''UNK_A'' = Some ''FAM:UNK_A''
          \<and> out_expansion st' = out_expansion st"
    using al nd tn
    by (simp add: alias_and_return_def tax_remove_tag_def tax_add_tag_def add_rule_def get_dst_def)
  from first second show ?thesis by blast
qed

text \<open>
  C2. The claim is that classifying the relation (\<open>upatre\<close>, \<open>UNK_A\<close>), both ratios 0.96,
  makes \<open>UNK_A\<close> a translation source with destination \<open>FAM:upatre\<close>. On the knowledge base
  that knows only \<open>FAM:upatre\<close> the classification raises NameError at the threshold test,
  and so does \<open>run\<close> on the working set that holds the relation: no rule is installed. The
  call that the classification is written to make after the test,
  \<open>add_alias('upatre', 'UNK_A', 'FAM')\<close>, installs the rule \<open>upatre \<rightarrow> UNK_A\<close> and registers
  \<open>FAM:UNK_A\<close>; \<open>UNK_A\<close> has no destinations after it.
\<close>

theorem upatre_classification_raises:
  "module_env (ex_env None)
   \<and> process_relation (ex_env None) (ex_kb [''upatre'' \<mapsto> ''FAM:upatre''] Map.empty Map.empty)
     (ex_rel ''upatre'' ''UNK_A'' ''0.96'' ''0.96'') = Inl (NameError ''args'')
   \<and> run (ex_env None)
        ((ex_kb [''upatre'' \<mapsto> ''FAM:upatre''] Map.empty Map.empty)
           \<lparr>rel_set := [ex_rel ''upatre'' ''UNK_A'' ''0.96'' ''0.96'']\<rparr>)
      = Inl (NameError ''args'')
   \<and> add_alias (ex_kb [''upatre'' \<mapsto> ''FAM:upatre''] Map.empty Map.empty) ''upatre'' ''UNK_A'' ''FAM''
     = Inr ((ex_kb [''upatre'' \<mapsto> ''FAM:upatre''] Map.empty Map.empty)
               \<lparr>out_taxonomy := [''upatre'' \<mapsto> ''FAM:upatre'', ''UNK_A'' \<mapsto> ''FAM:UNK_A'']
                                   (''upatre'' := None),
                out_translation := [''upatre'' \<mapsto> [''UNK_A'']]\<rparr>)
   \<and> get_dst [''upatre'' \<mapsto> [''UNK_A'']] ''UNK_A'' = []
   \<and> get_dst [''upatre'' \<mapsto> [''UNK_A'']] ''upatre'' = [''UNK_A'']"
  by (simp add: module_env_def ex_env_def ex_kb_def ex_rel_def process_relation_def get_info_def
      tag_cat_def tag_name_def ex_float_def get_dst_def run_def is_known_rel_def overlaps_def
      ancestors_def tag_ancestors_def set_pop_def
      add_alias_def tax_add_tag_def tax_remove_tag_def add_rule_def)

section \<open>Expansion rules\<close>

text \<open>
  \<open>nonoverlapping tx ds\<close>: no two destinations at different places of \<open>ds\<close> overlap in the
  taxonomy \<open>tx\<close> (lemma \<open>nonoverlapping_index\<close>). \<open>rule_source\<close> is the source under which
  \<open>add_expansion\<close> commits the rule: the first translation destination of \<open>src\<close> when
  there is one, \<open>src\<close> itself otherwise.
\<close>

fun nonoverlapping :: "taxonomy \<Rightarrow> string list \<Rightarrow> bool" where
  "nonoverlapping tx [] = True"
| "nonoverlapping tx (d # ds) =
     (list_all (\<lambda>x. \<not> overlaps tx d x \<and> \<not> overlaps tx x d) ds \<and> nonoverlapping tx ds)"

definition rule_source :: "update \<Rightarrow> string \<Rightarrow> string" where
  "rule_source st src = (case get_dst (out_translation st) src of [] \<Rightarrow> src | d # ds \<Rightarrow> d)"

lemma overlaps_sym: "overlaps tx a b = overlaps tx b a"
  by (auto simp: overlaps_def)

lemma nonoverlapping_snoc:
  "nonoverlapping tx (ds @ [t]) \<longleftrightarrow>
     nonoverlapping tx ds \<and> list_all (\<lambda>x. \<not> overlaps tx t x) ds"
  by (induction ds) (auto simp: overlaps_sym list_all_iff)

lemma nonoverlapping_index:
  "nonoverlapping tx ds \<longleftrightarrow>
     (\<forall>i < length ds. \<forall>j < length ds. i \<noteq> j \<longrightarrow> \<not> overlaps tx (ds ! i) (ds ! j))"
proof (induction ds)
  case Nil
  then show ?case by simp
next
  case (Cons d ds)
  show ?case
  proof
    assume a: "nonoverlapping tx (d # ds)"
    then have tl: "\<forall>i < length ds. \<forall>j < length ds. i \<noteq> j \<longrightarrow> \<not> overlaps tx (ds ! i) (ds ! j)"
      and hd: "\<forall>x \<in> set ds. \<not> overlaps tx d x \<and> \<not> overlaps tx x d"
      using Cons.IH by (simp_all add: list_all_iff)
    show "\<forall>i < length (d # ds). \<forall>j < length (d # ds). i \<noteq> j \<longrightarrow> \<not> overlaps tx ((d # ds) ! i) ((d # ds) ! j)"
    proof (intro allI impI)
      fix i j assume "i < length (d # ds)" "j < length (d # ds)" "i \<noteq> j"
      then show "\<not> overlaps tx ((d # ds) ! i) ((d # ds) ! j)"
        using tl hd by (cases i; cases j) (auto simp: nth_mem)
    qed
  next
    assume a: "\<forall>i < length (d # ds). \<forall>j < length (d # ds). i \<noteq> j \<longrightarrow> \<not> overlaps tx ((d # ds) ! i) ((d # ds) ! j)"
    have "\<forall>i < length ds. \<forall>j < length ds. i \<noteq> j \<longrightarrow> \<not> overlaps tx (ds ! i) (ds ! j)"
    proof (intro allI impI)
      fix i j assume "i < length ds" "j < length ds" "i \<noteq> j"
      with a[rule_format, of "Suc i" "Suc j"] show "\<not> overlaps tx (ds ! i) (ds ! j)" by simp
    qed
    moreover have "\<forall>x \<in> set ds. \<not> overlaps tx d x \<and> \<not> overlaps tx x d"
    proof
      fix x assume "x \<in> set ds"
      then obtain k where k: "k < length ds" "ds ! k = x" by (auto simp: in_set_conv_nth)
      from a[rule_format, of 0 "Suc k"] a[rule_format, of "Suc k" 0] k
      show "\<not> overlaps tx d x \<and> \<not> overlaps tx x d" by simp
    qed
    ultimately show "nonoverlapping tx (d # ds)"
      using Cons.IH by (simp add: list_all_iff)
  qed
qed

lemma remove_overlaps_acc_nonoverlapping:
  "nonoverlapping tx out_l \<Longrightarrow> nonoverlapping tx (remove_overlaps_acc tx out_l l)"
proof (induction l arbitrary: out_l)
  case Nil
  then show ?case by simp
next
  case (Cons t ts)
  show ?case
  proof (cases "list_ex (\<lambda>e. overlaps tx t e) out_l")
    case True
    with Cons show ?thesis by simp
  next
    case False
    then have "nonoverlapping tx (out_l @ [t])"
      using Cons.prems by (simp add: nonoverlapping_snoc list_all_iff list_ex_iff)
    from Cons.IH[OF this] False show ?thesis by simp
  qed
qed

lemma remove_overlaps_nonoverlapping: "nonoverlapping tx (remove_overlaps tx l)"
  by (simp add: remove_overlaps_def remove_overlaps_acc_nonoverlapping)

text \<open>
  C3, as the source has it. \<open>add_expansion\<close> removes overlaps only when it merges the new
  destinations into an existing rule of \<open>src\<close>; without such a rule it commits \<open>dst_l\<close> as
  it is given. So the committed destinations are pairwise non-overlapping when \<open>src\<close> has an
  expansion rule already, or when \<open>dst_l\<close> itself is (a list of one tag, which is all that
  \<open>find_expansions\<close> ever passes, always is). The taxonomy is not touched.
\<close>

theorem add_expansion_nonoverlapping:
  "get_dst (out_expansion st) src \<noteq> [] \<or> nonoverlapping (out_taxonomy st) dst_l \<Longrightarrow>
   nonoverlapping (out_taxonomy (add_expansion st src dst_l))
     (get_dst (out_expansion (add_expansion st src dst_l)) (rule_source st src))
   \<and> out_taxonomy (add_expansion st src dst_l) = out_taxonomy st"
  by (auto simp: add_expansion_def rule_source_def Let_def add_rule_def get_dst_def
      remove_overlaps_nonoverlapping)

text \<open>
  \<open>zbot\<close> expands to \<open>grayware\<close>, and \<open>adware\<close> is a descendant of \<open>grayware\<close>: adding
  \<open>adware\<close> leaves the rule at \<open>grayware\<close> alone.
\<close>

theorem add_expansion_nonoverlapping_witness:
  "get_dst (out_expansion (ex_kb [''grayware'' \<mapsto> ''CLASS:grayware'', ''adware'' \<mapsto> ''CLASS:grayware:adware'']
       Map.empty [''zbot'' \<mapsto> [''grayware'']])) ''zbot'' = [''grayware'']
   \<and> get_dst (out_expansion (add_expansion
        (ex_kb [''grayware'' \<mapsto> ''CLASS:grayware'', ''adware'' \<mapsto> ''CLASS:grayware:adware'']
           Map.empty [''zbot'' \<mapsto> [''grayware'']]) ''zbot'' [''adware''])) ''zbot'' = [''grayware'']
   \<and> nonoverlapping [''grayware'' \<mapsto> ''CLASS:grayware'', ''adware'' \<mapsto> ''CLASS:grayware:adware'']
        [''grayware'']"
  using add_expansion_nonoverlapping
    [of "ex_kb [''grayware'' \<mapsto> ''CLASS:grayware'', ''adware'' \<mapsto> ''CLASS:grayware:adware'']
           Map.empty [''zbot'' \<mapsto> [''grayware'']]" "''zbot''" "[''adware'']"]
  by (simp add: ex_kb_def add_expansion_def get_dst_def add_rule_def remove_overlaps_def
      overlaps_def ancestors_def tag_ancestors_def rule_source_def)

text \<open>
  The claim of the spec fails for a source without a rule: the two overlapping tags
  \<open>grayware\<close> and \<open>adware\<close> are committed together.
\<close>

theorem add_expansion_overlap_counterexample:
  "get_dst (out_expansion (add_expansion
        (ex_kb [''grayware'' \<mapsto> ''CLASS:grayware'', ''adware'' \<mapsto> ''CLASS:grayware:adware'']
           Map.empty Map.empty) ''zbot'' [''grayware'', ''adware''])) ''zbot''
     = [''grayware'', ''adware'']
   \<and> overlaps (out_taxonomy (add_expansion
        (ex_kb [''grayware'' \<mapsto> ''CLASS:grayware'', ''adware'' \<mapsto> ''CLASS:grayware:adware'']
           Map.empty Map.empty) ''zbot'' [''grayware'', ''adware''])) ''grayware'' ''adware''"
  by (simp add: ex_kb_def add_expansion_def get_dst_def add_rule_def
      overlaps_def ancestors_def tag_ancestors_def)

section \<open>The fixed-point loop of run\<close>

lemma run_loop_passes:
  "run_loop e st num_iter passes = Inr (st', num_iter', passes') \<Longrightarrow>
   passes' \<le> passes + length (rel_set st) \<and> num_iter' + passes \<le> num_iter + passes'
   \<and> num_iter \<le> num_iter'"
proof (induction e st num_iter passes rule: run_loop.induct)
  case (1 e st num_iter passes)
  show ?case
  proof (cases "rel_set st = []")
    case True
    with "1.prems" show ?thesis by simp
  next
    case False
    show ?thesis
    proof (cases "pass_loop e st (rel_set st) 0 []")
      case (Inl err)
      with False "1.prems" show ?thesis by simp
    next
      case (Inr res)
      obtain st1 cnt new_set where res: "res = (st1, cnt, new_set)" by (cases res)
      from pass_loop_length[OF Inr[unfolded res]]
      have len: "length new_set + cnt \<le> length (rel_set st)" by simp
      show ?thesis
      proof (cases "cnt = 0")
        case True
        with False Inr res "1.prems" show ?thesis by (cases "rel_set st") auto
      next
        case nz: False
        with False Inr res "1.prems"
        have "run_loop e (st1\<lparr>rel_set := new_set\<rparr>) (num_iter + 1) (passes + 1)
                = Inr (st', num_iter', passes')"
          by simp
        from "1.IH"[OF False Inr[unfolded res] refl refl nz this] len nz
        show ?thesis by simp
      qed
    qed
  qed
qed

lemma set_pop_mem: "rs \<noteq> [] \<Longrightarrow> fst (set_pop e rs) \<in> set rs"
  by (simp add: set_pop_def Let_def)

lemma set_pop_rest: "set (snd (set_pop e rs)) \<subseteq> set rs"
  by (auto simp: set_pop_def Let_def dest: in_set_takeD in_set_dropD)

lemma pass_loop_sets:
  "pass_loop e st rs cnt new_set = Inr (st', cnt', new_set') \<Longrightarrow>
   set new_set \<subseteq> set new_set' \<and> set new_set' \<subseteq> set new_set \<union> set rs \<and> cnt \<le> cnt'"
proof (induction e st rs cnt new_set rule: pass_loop.induct)
  case (1 e st rs cnt new_set)
  show ?case
  proof (cases "rs = []")
    case True
    with "1.prems" show ?thesis by simp
  next
    case False
    define rel where "rel = fst (set_pop e rs)"
    define rs' where "rs' = snd (set_pop e rs)"
    have mem: "rel \<in> set rs" and sub: "set rs' \<subseteq> set rs"
      using False by (simp_all add: rel_def rs'_def set_pop_mem set_pop_rest)
    show ?thesis
    proof (cases "is_known_rel st rel")
      case True
      with False "1.prems" have "pass_loop e st rs' cnt new_set = Inr (st', cnt', new_set')"
        by (simp add: rel_def rs'_def Let_def)
      from "1.IH"(1)[OF False rel_def rs'_def True this] sub show ?thesis by auto
    next
      case known: False
      show ?thesis
      proof (cases "process_relation e st rel")
        case (Inl err)
        with False known "1.prems" show ?thesis
          by (simp add: rel_def rs'_def Let_def)
      next
        case (Inr res)
        obtain result st1 where res: "res = (result, st1)" by (cases res)
        show ?thesis
        proof (cases "result \<noteq> 0")
          case True
          with False known Inr res "1.prems"
          have "pass_loop e st1 rs' (cnt + 1) new_set = Inr (st', cnt', new_set')"
            by (simp add: rel_def rs'_def Let_def)
          from "1.IH"(2)[OF False rel_def rs'_def known Inr[unfolded res] refl True this] sub
          show ?thesis by auto
        next
          case zero: False
          with False known Inr res "1.prems"
          have "pass_loop e st1 rs' cnt (set_add rel new_set) = Inr (st', cnt', new_set')"
            by (simp add: rel_def rs'_def Let_def)
          from "1.IH"(3)[OF False rel_def rs'_def known Inr[unfolded res] refl zero this] sub mem
          show ?thesis by auto
        qed
      qed
    qed
  qed
qed

lemma process_relation_result:
  "process_relation e st rel = Inr (r, st') \<Longrightarrow>
   (r = 1 \<or> r = 0 \<or> r = -1)
   \<and> (r = -1 \<longrightarrow> out_taxonomy st' = out_taxonomy st \<and> out_translation st' = out_translation st
                  \<and> out_expansion st' = out_expansion st)"
  by (auto simp: process_relation_def alias_and_return_def log_warning_def
      split: prod.splits option.splits if_splits sum.splits)

text \<open>
  C5, as the source has it. \<open>run_loop\<close> is a total function (its termination is proved
  with the length of the working set as the measure: a pass that counts something returns
  fewer relations than it got), so \<open>run\<close> ends, with an exception or with a state. When it
  ends with a state, the loop body ran at most as many times as there were relations in the
  working set at the start, and \<open>num_iter\<close> is at most that number of passes.
\<close>

theorem run_passes_bound:
  "(\<exists>err. run_loop e st 0 0 = Inl err \<and> run e st = Inl err)
   \<or> (\<exists>st' num_iter passes.
         run_loop e st 0 0 = Inr (st', num_iter, passes) \<and> run e st = Inr (find_expansions e st')
         \<and> passes \<le> length (rel_set st) \<and> num_iter \<le> passes)"
proof (cases "run_loop e st 0 0")
  case (Inl err)
  then show ?thesis by (simp add: run_def)
next
  case (Inr res)
  obtain st' num_iter passes where res: "res = (st', num_iter, passes)" by (cases res)
  from run_loop_passes[OF Inr[unfolded res]] Inr res show ?thesis
    by (simp add: run_def)
qed

text \<open>One known relation (\<open>adware\<close> is a descendant of \<open>grayware\<close>): one pass.\<close>

theorem run_passes_bound_witness:
  "run_loop (ex_env None)
     ((ex_kb [''grayware'' \<mapsto> ''CLASS:grayware'', ''adware'' \<mapsto> ''CLASS:grayware:adware'']
         Map.empty Map.empty)\<lparr>rel_set := [ex_rel ''adware'' ''grayware'' ''0.96'' ''0.50'']\<rparr>) 0 0
   = Inr ((ex_kb [''grayware'' \<mapsto> ''CLASS:grayware'', ''adware'' \<mapsto> ''CLASS:grayware:adware'']
         Map.empty Map.empty)\<lparr>rel_set := []\<rparr>, 0, 1)
   \<and> (1::nat) \<le> length (rel_set ((ex_kb [''grayware'' \<mapsto> ''CLASS:grayware'', ''adware'' \<mapsto> ''CLASS:grayware:adware'']
         Map.empty Map.empty)\<lparr>rel_set := [ex_rel ''adware'' ''grayware'' ''0.96'' ''0.50'']\<rparr>))"
  using run_passes_bound
    [of "ex_env None"
        "(ex_kb [''grayware'' \<mapsto> ''CLASS:grayware'', ''adware'' \<mapsto> ''CLASS:grayware:adware'']
         Map.empty Map.empty)\<lparr>rel_set := [ex_rel ''adware'' ''grayware'' ''0.96'' ''0.50'']\<rparr>"]
  by (simp add: ex_env_def ex_kb_def ex_rel_def is_known_rel_def overlaps_def ancestors_def
      tag_ancestors_def set_pop_def)

text \<open>
  The bound of the spec, the number of tags of category UNK in the relations, fails. The same
  run has one pass and no UNK tag. With a threshold bound to \<open>args.t\<close>, a relation between
  the two families \<open>zbot\<close> and \<open>zeus\<close> is made an alias in a pass that \<open>num_iter\<close> counts:
  one counted pass, no UNK tag.
\<close>

theorem passes_exceed_unk_tags:
  "run_loop (ex_env None)
     ((ex_kb [''grayware'' \<mapsto> ''CLASS:grayware'', ''adware'' \<mapsto> ''CLASS:grayware:adware'']
         Map.empty Map.empty)\<lparr>rel_set := [ex_rel ''adware'' ''grayware'' ''0.96'' ''0.50'']\<rparr>) 0 0
   = Inr ((ex_kb [''grayware'' \<mapsto> ''CLASS:grayware'', ''adware'' \<mapsto> ''CLASS:grayware:adware'']
         Map.empty Map.empty)\<lparr>rel_set := []\<rparr>, 0, 1)
   \<and> get_category [''grayware'' \<mapsto> ''CLASS:grayware'', ''adware'' \<mapsto> ''CLASS:grayware:adware''] ''adware''
       = ''CLASS''
   \<and> get_category [''grayware'' \<mapsto> ''CLASS:grayware'', ''adware'' \<mapsto> ''CLASS:grayware:adware''] ''grayware''
       = ''CLASS''
   \<and> run_loop (ex_env (Some (Finite (47 / 50))))
     ((ex_kb [''zbot'' \<mapsto> ''FAM:zbot'', ''zeus'' \<mapsto> ''FAM:zeus''] Map.empty Map.empty)
        \<lparr>rel_set := [ex_rel ''zbot'' ''zeus'' ''0.96'' ''0.50'']\<rparr>) 0 0
   = Inr ((ex_kb [''zbot'' \<mapsto> ''FAM:zbot'', ''zeus'' \<mapsto> ''FAM:zeus''] Map.empty Map.empty)
        \<lparr>out_taxonomy := [''zbot'' \<mapsto> ''FAM:zbot'', ''zeus'' \<mapsto> ''FAM:zeus''](''zbot'' := None),
         out_translation := [''zbot'' \<mapsto> [''zeus'']], rel_set := []\<rparr>, 1, 1)
   \<and> get_category [''zbot'' \<mapsto> ''FAM:zbot'', ''zeus'' \<mapsto> ''FAM:zeus''] ''zbot'' = ''FAM''
   \<and> get_category [''zbot'' \<mapsto> ''FAM:zbot'', ''zeus'' \<mapsto> ''FAM:zeus''] ''zeus'' = ''FAM''"
  by (simp add: ex_env_def ex_kb_def ex_rel_def is_known_rel_def overlaps_def ancestors_def
      tag_ancestors_def set_pop_def get_category_def get_info_def tag_cat_def
      process_relation_def ex_float_def flt_ge_def alias_and_return_def add_alias_def
      get_dst_def path_prefix_def tax_add_tag_def tax_remove_tag_def tag_name_def add_rule_def)

text \<open>
  The shape of the loop, in every environment. A pass that completes returns the deferred
  set and the counter: the deferred relations are relations of the pass (besides those
  deferred before), and the relations counted and the relations deferred are together no
  more than the pass had. A relation that is not known is counted and dropped when
  \<open>process_relation\<close> returns a result other than 0, and deferred when it returns 0. The
  result is 1, 0 or -1, and -1 leaves the three stores as they were. \<open>run\<close> stops when the
  working set is empty or after the first pass that counted nothing.
\<close>

lemma run_loop_structure:
  "(pass_loop e st rs cnt new_set = Inr (st', cnt', new_set') \<longrightarrow>
      set new_set \<subseteq> set new_set' \<and> set new_set' \<subseteq> set new_set \<union> set rs \<and> cnt \<le> cnt'
      \<and> length new_set' + cnt' \<le> length rs + length new_set + cnt)
   \<and> (rs \<noteq> [] \<and> \<not> is_known_rel st (fst (set_pop e rs))
        \<and> process_relation e st (fst (set_pop e rs)) = Inr (r, st1) \<and> r \<noteq> 0 \<longrightarrow>
      pass_loop e st rs cnt new_set = pass_loop e st1 (snd (set_pop e rs)) (cnt + 1) new_set)
   \<and> (rs \<noteq> [] \<and> \<not> is_known_rel st (fst (set_pop e rs))
        \<and> process_relation e st (fst (set_pop e rs)) = Inr (0, st1) \<longrightarrow>
      pass_loop e st rs cnt new_set
        = pass_loop e st1 (snd (set_pop e rs)) cnt (set_add (fst (set_pop e rs)) new_set))
   \<and> (process_relation e st rel = Inr (r, st1) \<longrightarrow>
        (r = 1 \<or> r = 0 \<or> r = -1)
        \<and> (r = -1 \<longrightarrow> out_taxonomy st1 = out_taxonomy st \<and> out_translation st1 = out_translation st
                       \<and> out_expansion st1 = out_expansion st))
   \<and> (rel_set st = [] \<longrightarrow> run_loop e st num_iter passes = Inr (st, num_iter, passes))
   \<and> (rel_set st \<noteq> [] \<and> pass_loop e st (rel_set st) 0 [] = Inr (st1, 0, new) \<longrightarrow>
        run_loop e st num_iter passes = Inr (st1\<lparr>rel_set := new\<rparr>, num_iter, passes + 1))
   \<and> (rel_set st \<noteq> [] \<and> pass_loop e st (rel_set st) 0 [] = Inr (st1, c, new) \<and> c \<noteq> 0 \<longrightarrow>
        run_loop e st num_iter passes
          = run_loop e (st1\<lparr>rel_set := new\<rparr>) (num_iter + 1) (passes + 1))"
proof (intro conjI impI)
  assume a: "pass_loop e st rs cnt new_set = Inr (st', cnt', new_set')"
  from pass_loop_sets[OF a]
  show "set new_set \<subseteq> set new_set'" "set new_set' \<subseteq> set new_set \<union> set rs" "cnt \<le> cnt'"
    by simp_all
  from pass_loop_length[OF a]
  show "length new_set' + cnt' \<le> length rs + length new_set + cnt" .
next
  assume "rs \<noteq> [] \<and> \<not> is_known_rel st (fst (set_pop e rs))
        \<and> process_relation e st (fst (set_pop e rs)) = Inr (r, st1) \<and> r \<noteq> 0"
  then show "pass_loop e st rs cnt new_set = pass_loop e st1 (snd (set_pop e rs)) (cnt + 1) new_set"
    by (subst pass_loop.simps) (simp add: Let_def del: pass_loop.simps)
next
  assume "rs \<noteq> [] \<and> \<not> is_known_rel st (fst (set_pop e rs))
        \<and> process_relation e st (fst (set_pop e rs)) = Inr (0, st1)"
  then show "pass_loop e st rs cnt new_set
        = pass_loop e st1 (snd (set_pop e rs)) cnt (set_add (fst (set_pop e rs)) new_set)"
    by (subst pass_loop.simps) (simp add: Let_def del: pass_loop.simps)
next
  assume a: "process_relation e st rel = Inr (r, st1)"
  from process_relation_result[OF a] show "r = 1 \<or> r = 0 \<or> r = -1" by simp
  assume "r = -1"
  with process_relation_result[OF a]
  show "out_taxonomy st1 = out_taxonomy st" "out_translation st1 = out_translation st"
    "out_expansion st1 = out_expansion st"
    by simp_all
next
  assume "rel_set st = []"
  then show "run_loop e st num_iter passes = Inr (st, num_iter, passes)" by simp
next
  assume "rel_set st \<noteq> [] \<and> pass_loop e st (rel_set st) 0 [] = Inr (st1, 0, new)"
  then show "run_loop e st num_iter passes = Inr (st1\<lparr>rel_set := new\<rparr>, num_iter, passes + 1)"
    by (subst run_loop.simps) (simp del: pass_loop.simps run_loop.simps)
next
  assume "rel_set st \<noteq> [] \<and> pass_loop e st (rel_set st) 0 [] = Inr (st1, c, new) \<and> c \<noteq> 0"
  then show "run_loop e st num_iter passes
          = run_loop e (st1\<lparr>rel_set := new\<rparr>) (num_iter + 1) (passes + 1)"
    by (subst run_loop.simps) (simp del: pass_loop.simps run_loop.simps)
qed

text \<open>
  With the threshold 0.94 bound to \<open>args.t\<close>, the counter of a pass is not a count of
  mutations. A pass over a contradictory relation (a family and a class, both ratios strong)
  and a relation it defers changes no store, only the warnings, and counts 1: \<open>run\<close> does a
  second pass. A pass over a relation between an unknown tag and a class adds \<open>FAM:newfam\<close>
  to the taxonomy and returns 0: \<open>run\<close> stops after it.
\<close>

lemma halting_not_by_mutation:
  "pass_loop (ex_env (Some (Finite (47 / 50))))
     (ex_kb [''zbot'' \<mapsto> ''FAM:zbot'', ''downloader'' \<mapsto> ''CLASS:downloader''] Map.empty Map.empty)
     [ex_rel ''zbot'' ''downloader'' ''0.96'' ''0.96'', ex_rel ''downloader'' ''foo'' ''0.96'' ''0.50'']
     0 []
   = Inr ((ex_kb [''zbot'' \<mapsto> ''FAM:zbot'', ''downloader'' \<mapsto> ''CLASS:downloader''] Map.empty Map.empty)
            \<lparr>warnings := [''Equivalent rule with different categories: FAM:zbot'' @ [CHR 0x09]
                            @ ''CLASS:downloader'']\<rparr>,
          1, [ex_rel ''downloader'' ''foo'' ''0.96'' ''0.50''])
   \<and> run_loop (ex_env (Some (Finite (47 / 50))))
     ((ex_kb [''zbot'' \<mapsto> ''FAM:zbot'', ''downloader'' \<mapsto> ''CLASS:downloader''] Map.empty Map.empty)
        \<lparr>rel_set := [ex_rel ''zbot'' ''downloader'' ''0.96'' ''0.96'',
                     ex_rel ''downloader'' ''foo'' ''0.96'' ''0.50'']\<rparr>) 0 0
   = Inr ((ex_kb [''zbot'' \<mapsto> ''FAM:zbot'', ''downloader'' \<mapsto> ''CLASS:downloader''] Map.empty Map.empty)
            \<lparr>rel_set := [ex_rel ''downloader'' ''foo'' ''0.96'' ''0.50''],
             warnings := [''Equivalent rule with different categories: FAM:zbot'' @ [CHR 0x09]
                            @ ''CLASS:downloader'']\<rparr>,
          1, 2)
   \<and> run_loop (ex_env (Some (Finite (47 / 50))))
     ((ex_kb [''downloader'' \<mapsto> ''CLASS:downloader''] Map.empty Map.empty)
        \<lparr>rel_set := [ex_rel ''newfam'' ''downloader'' ''0.96'' ''0.50'']\<rparr>) 0 0
   = Inr ((ex_kb [''downloader'' \<mapsto> ''CLASS:downloader''] Map.empty Map.empty)
            \<lparr>out_taxonomy := [''downloader'' \<mapsto> ''CLASS:downloader'', ''newfam'' \<mapsto> ''FAM:newfam''],
             rel_set := [ex_rel ''newfam'' ''downloader'' ''0.96'' ''0.50'']\<rparr>,
          0, 1)"
  by (simp add: ex_env_def ex_kb_def ex_rel_def is_known_rel_def overlaps_def ancestors_def
      tag_ancestors_def set_pop_def get_info_def tag_cat_def set_add_def
      process_relation_def ex_float_def flt_ge_def log_warning_def add_tag_def
      get_dst_def tax_add_tag_def tag_name_def Let_def)

text \<open>
  C4. The claim is that in every pass each relation is dropped as known, dropped and counted,
  or deferred, and that the loop halts after a pass without mutation. In the module as it is
  written a pass gets no further than the first relation that is not known: \<open>adware\<close> and
  \<open>grayware\<close> overlap and the relation between them is dropped as known, the relation
  between \<open>newfam\<close> and \<open>downloader\<close> is popped and \<open>process_relation\<close> raises NameError.
  The pass, the loop and \<open>run\<close> end with the exception; the relation is neither counted nor
  deferred, and the loop does not halt on a count.
\<close>

theorem pass_raises:
  "module_env (ex_env None)
   \<and> is_known_rel
        (ex_kb [''grayware'' \<mapsto> ''CLASS:grayware'', ''adware'' \<mapsto> ''CLASS:grayware:adware'',
                ''downloader'' \<mapsto> ''CLASS:downloader''] Map.empty Map.empty)
        (ex_rel ''adware'' ''grayware'' ''0.96'' ''0.50'')
   \<and> pass_loop (ex_env None)
        (ex_kb [''grayware'' \<mapsto> ''CLASS:grayware'', ''adware'' \<mapsto> ''CLASS:grayware:adware'',
                ''downloader'' \<mapsto> ''CLASS:downloader''] Map.empty Map.empty)
        [ex_rel ''adware'' ''grayware'' ''0.96'' ''0.50'', ex_rel ''newfam'' ''downloader'' ''0.96'' ''0.50'']
        0 []
      = Inl (NameError ''args'')
   \<and> run_loop (ex_env None)
        ((ex_kb [''grayware'' \<mapsto> ''CLASS:grayware'', ''adware'' \<mapsto> ''CLASS:grayware:adware'',
                 ''downloader'' \<mapsto> ''CLASS:downloader''] Map.empty Map.empty)
           \<lparr>rel_set := [ex_rel ''adware'' ''grayware'' ''0.96'' ''0.50'',
                        ex_rel ''newfam'' ''downloader'' ''0.96'' ''0.50'']\<rparr>) 0 0
      = Inl (NameError ''args'')
   \<and> run (ex_env None)
        ((ex_kb [''grayware'' \<mapsto> ''CLASS:grayware'', ''adware'' \<mapsto> ''CLASS:grayware:adware'',
                 ''downloader'' \<mapsto> ''CLASS:downloader''] Map.empty Map.empty)
           \<lparr>rel_set := [ex_rel ''adware'' ''grayware'' ''0.96'' ''0.50'',
                        ex_rel ''newfam'' ''downloader'' ''0.96'' ''0.50'']\<rparr>)
      = Inl (NameError ''args'')"
  by (simp add: module_env_def ex_env_def ex_kb_def ex_rel_def is_known_rel_def overlaps_def
      ancestors_def tag_ancestors_def set_pop_def get_info_def tag_cat_def get_dst_def
      process_relation_def ex_float_def run_def Let_def)

section \<open>Known relations\<close>











section \<open>Taxonomy entries and translation sources\<close>

text \<open>
  A tag is a taxonomy entry when the taxonomy has a path for it, and a translation source
  when the translation rules give it a destination. The knowledge base is consistent when no
  tag is both. The tags of a relation are free of colons when neither of them holds the
  separator of paths: the path \<open>prefix:tag\<close> that \<open>add_alias\<close> and \<open>process_relation\<close>
  register then has the tag as its name.
\<close>

definition tag_and_source :: "update \<Rightarrow> string \<Rightarrow> bool" where
  "tag_and_source st tag = (out_taxonomy st tag \<noteq> None \<and> get_dst (out_translation st) tag \<noteq> [])"

definition kb_invariant :: "update \<Rightarrow> bool" where
  "kb_invariant st = (\<forall>tag. \<not> tag_and_source st tag)"







lemma kb_invariant_log_warning [simp]: "kb_invariant (log_warning msg st) = kb_invariant st"
  by (simp add: kb_invariant_def tag_and_source_def log_warning_def)

lemma kb_invariant_add_expansion [simp]: "kb_invariant (add_expansion st src dst_l) = kb_invariant st"
  by (simp add: kb_invariant_def tag_and_source_def add_expansion_def Let_def)











text \<open>
  Without the condition on the colons the alias call can break consistency: \<open>b\<close> translates
  to \<open>c\<close> and is no taxonomy entry; the alias of \<open>a\<close> to the tag written \<open>x:b\<close> registers
  the path \<open>FAM:x:b\<close>, whose name is \<open>b\<close>.
\<close>

lemma add_alias_colon:
  "kb_invariant (ex_kb Map.empty [''b'' \<mapsto> [''c'']] Map.empty)
   \<and> add_alias (ex_kb Map.empty [''b'' \<mapsto> [''c'']] Map.empty) ''a'' ''x:b'' ''FAM''
      = Inr ((ex_kb Map.empty [''b'' \<mapsto> [''c'']] Map.empty)
               \<lparr>out_taxonomy := [''b'' \<mapsto> ''FAM:x:b''],
                out_translation := [''b'' \<mapsto> [''c''], ''a'' \<mapsto> [''x:b'']]\<rparr>)
   \<and> tag_and_source ((ex_kb Map.empty [''b'' \<mapsto> [''c'']] Map.empty)
               \<lparr>out_taxonomy := [''b'' \<mapsto> ''FAM:x:b''],
                out_translation := [''b'' \<mapsto> [''c''], ''a'' \<mapsto> [''x:b'']]\<rparr>) ''b''"
  by (simp add: kb_invariant_def tag_and_source_def ex_kb_def add_alias_def get_dst_def
      tax_add_tag_def tax_remove_tag_def add_rule_def tag_name_def)




end
